theory Spec2Isabelle
  imports Main
begin

section \<open>Python strings\<close>

text \<open>
  A Python \<open>str\<close> is a sequence of Unicode code points; slicing, \<open>in\<close>, \<open>replace\<close> and
  \<open>strip\<close> all count code points, not bytes. A string is therefore a list of code
  points (natural numbers); ASCII characters are their usual codes, the Chinese literals
  of the source are spelled out by code point below.
\<close>

type_synonym pystr = "nat list"

text \<open>An ASCII literal of the source, as the list of its character codes.\<close>

definition ascii :: "string \<Rightarrow> pystr" where
  "ascii s = map of_char s"

text \<open>\<open>str.isspace\<close> on one code point: the characters \<open>str.strip()\<close> removes.\<close>

definition py_isspace :: "nat \<Rightarrow> bool" where
  "py_isspace c =
     ((9 \<le> c \<and> c \<le> 13) \<or> (28 \<le> c \<and> c \<le> 32) \<or> c = 133 \<or> c = 160 \<or> c = 5760 \<or>
      (8192 \<le> c \<and> c \<le> 8202) \<or> c = 8232 \<or> c = 8233 \<or> c = 8239 \<or> c = 8287 \<or>
      c = 12288)"

text \<open>\<open>s.strip()\<close>: leading and trailing whitespace removed.\<close>

definition py_strip :: "pystr \<Rightarrow> pystr" where
  "py_strip s = rev (dropWhile py_isspace (rev (dropWhile py_isspace s)))"

text \<open>\<open>s.rstrip(chars)\<close>: trailing characters that occur in \<open>chars\<close> removed.\<close>

definition py_rstrip :: "pystr \<Rightarrow> pystr \<Rightarrow> pystr" where
  "py_rstrip chars s = rev (dropWhile (\<lambda>c. c \<in> set chars) (rev s))"

text \<open>\<open>s.startswith(p)\<close>.\<close>

definition py_startswith :: "pystr \<Rightarrow> pystr \<Rightarrow> bool" where
  "py_startswith s p = (take (length p) s = p)"

text \<open>\<open>sub in s\<close> for two strings: \<open>sub\<close> occurs in \<open>s\<close> as a contiguous run.\<close>

fun py_in :: "pystr \<Rightarrow> pystr \<Rightarrow> bool" where
  "py_in sub [] = (sub = [])"
| "py_in sub (c # cs) = (py_startswith (c # cs) sub \<or> py_in sub cs)"

text \<open>
  \<open>s.replace(old, new)\<close>: every non-overlapping occurrence of \<open>old\<close>, scanning from the
  left. With an empty \<open>old\<close> Python puts \<open>new\<close> before every character and at the end.
\<close>

function py_replace :: "pystr \<Rightarrow> pystr \<Rightarrow> pystr \<Rightarrow> pystr" where
  "py_replace old new [] = (if old = [] then new else [])"
| "py_replace old new (c # cs) =
     (if old = [] then new @ c # py_replace old new cs
      else if py_startswith (c # cs) old
        then new @ py_replace old new (drop (length old) (c # cs))
      else c # py_replace old new cs)"
  by pat_completeness auto
termination
  by (relation "measure (\<lambda>(old, new, s). length s)") auto

section \<open>Python dictionaries and decoded JSON\<close>

text \<open>
  A \<open>dict\<close> keeps its keys in insertion order: assigning to a key that is present
  replaces the value in place, assigning to a new key appends it. It is an association
  list with \<open>dict_get\<close>, \<open>dict_has\<close> (\<open>key in d\<close>) and \<open>dict_set\<close> (\<open>d[key] = v\<close>).
\<close>

fun dict_get :: "('k \<times> 'v) list \<Rightarrow> 'k \<Rightarrow> 'v option" where
  "dict_get [] k = None"
| "dict_get ((a, b) # d) k = (if a = k then Some b else dict_get d k)"

fun dict_has :: "('k \<times> 'v) list \<Rightarrow> 'k \<Rightarrow> bool" where
  "dict_has [] k = False"
| "dict_has ((a, b) # d) k = (a = k \<or> dict_has d k)"

fun dict_set :: "('k \<times> 'v) list \<Rightarrow> 'k \<Rightarrow> 'v \<Rightarrow> ('k \<times> 'v) list" where
  "dict_set [] k v = [(k, v)]"
| "dict_set ((a, b) # d) k v = (if a = k then (k, v) # d else (a, b) # dict_set d k v)"

text \<open>
  What \<open>json.loads\<close> can return: an object (a \<open>dict\<close>), an array (a \<open>list\<close>), a string, a
  number, a boolean or \<open>None\<close>. A float is kept as its literal: nothing here computes
  with it. The values of the \<open>options\<close> dictionary are of this type too, the text of a
  rendered option being a \<open>JStr\<close>.
\<close>

datatype json =
    JObj "(pystr \<times> json) list"
  | JArr "json list"
  | JStr pystr
  | JInt int
  | JFloat pystr
  | JBool bool
  | JNull

text \<open>
  The exceptions that can leave the code modelled here: \<open>TypeError\<close> from \<open>in\<close> and from
  item assignment, and what \<open>json.loads\<close> raises besides \<open>JSONDecodeError\<close>
  (\<open>RecursionError\<close> on deep nesting, a plain \<open>ValueError\<close> on an over-long number).
\<close>

datatype pyerr = TypeError | RecursionError | ValueError

text \<open>
  One call of \<open>json.loads\<close>: it returns a value, raises \<open>JSONDecodeError\<close>, or raises
  another exception.
\<close>

datatype loaded = Decoded json | JSONDecodeError | Raised pyerr

section \<open>The parsed markup\<close>

text \<open>
  \<open>BeautifulSoup(html_content, 'html.parser')\<close> is library code; the model starts from
  its result, the tree of the fragment. A node is a text node (\<open>NavigableString\<close>), a node
  whose string \<open>get_text\<close> does not count (a comment, a declaration), or a tag with its
  name, the list of its classes (the multi-valued \<open>class\<close> attribute), its other
  attributes and its children. The soup itself is the tag at the root of the document.
\<close>

datatype node =
    NavigableString pystr
  | Comment pystr
  | Tag pystr "pystr list" "(pystr \<times> pystr) list" "node list"

text \<open>\<open>tag.descendants\<close>: every node below a tag, in document order.\<close>

fun descendants :: "node \<Rightarrow> node list"
  and descendants_of :: "node list \<Rightarrow> node list" where
  "descendants (Tag nm cls attrs kids) = descendants_of kids"
| "descendants (NavigableString s) = []"
| "descendants (Comment s) = []"
| "descendants_of [] = []"
| "descendants_of (n # ns) = n # descendants n @ descendants_of ns"

text \<open>
  The search criterion of \<open>find(name, class_=c)\<close>: a tag of that name, one of whose
  classes is \<open>c\<close> (\<open>None\<close>: no class asked for, as in \<open>find('span')\<close>).
\<close>

fun matches :: "pystr \<Rightarrow> pystr option \<Rightarrow> node \<Rightarrow> bool" where
  "matches nm c (Tag nm' cls attrs kids) =
     (nm' = nm \<and> (case c of None \<Rightarrow> True | Some k \<Rightarrow> k \<in> set cls))"
| "matches nm c (NavigableString s) = False"
| "matches nm c (Comment s) = False"

text \<open>\<open>find_all\<close> and \<open>find\<close> over a list of nodes in document order.\<close>

definition find_all_in :: "node list \<Rightarrow> pystr \<Rightarrow> pystr option \<Rightarrow> node list" where
  "find_all_in ns nm c = filter (matches nm c) ns"

definition find_in :: "node list \<Rightarrow> pystr \<Rightarrow> pystr option \<Rightarrow> node option" where
  "find_in ns nm c = (case find_all_in ns nm c of [] \<Rightarrow> None | n # _ \<Rightarrow> Some n)"

text \<open>\<open>tag.find_all(name, class_=c)\<close> and \<open>tag.find(name, class_=c)\<close>.\<close>

definition find_all :: "node \<Rightarrow> pystr \<Rightarrow> pystr option \<Rightarrow> node list" where
  "find_all t nm c = find_all_in (descendants t) nm c"

definition find :: "node \<Rightarrow> pystr \<Rightarrow> pystr option \<Rightarrow> node option" where
  "find t nm c = find_in (descendants t) nm c"

text \<open>\<open>tag.get(key)\<close>: the value of an attribute, \<open>None\<close> when the tag has none.\<close>

fun get :: "node \<Rightarrow> pystr \<Rightarrow> pystr option" where
  "get (Tag nm cls attrs kids) key = dict_get attrs key"
| "get (NavigableString s) key = None"
| "get (Comment s) key = None"

text \<open>
  \<open>tag.get_text(strip=b)\<close>: the text nodes below the tag, concatenated with no
  separator. With \<open>strip=True\<close> every text node is stripped on its own, and one that
  becomes empty is left out.
\<close>

fun string_of :: "bool \<Rightarrow> node \<Rightarrow> pystr list" where
  "string_of strip (NavigableString s) =
     (if strip then (if py_strip s = [] then [] else [py_strip s]) else [s])"
| "string_of strip (Comment s) = []"
| "string_of strip (Tag nm cls attrs kids) = []"

definition all_strings :: "bool \<Rightarrow> node \<Rightarrow> pystr list" where
  "all_strings strip t = concat (map (string_of strip) (descendants t))"

definition get_text :: "bool \<Rightarrow> node \<Rightarrow> pystr" where
  "get_text strip t = concat (all_strings strip t)"

section \<open>The extractor: \<open>QuestionParser.parse_question_from_html\<close>\<close>

text \<open>
  The dictionary the parser builds (\<open>question_info\<close>); the key \<open>'type'\<close> is the field
  \<open>qtype\<close>. \<open>options\<close> holds what the parser stored: a dictionary it filled itself, or
  whatever \<open>json.loads\<close> returned for the \<open>data-options\<close> attribute.
\<close>

record question_info =
  qtype :: pystr
  question :: pystr
  options :: json
  source :: pystr
  correct_answer :: pystr
  knowledge_point :: pystr

text \<open>
  One rendered option item: its label is the stripped text of the \<open>option-label\<close> span
  without trailing colons (empty when the span is missing), its text is the stripped
  text of the whole item from the fourth character on.
\<close>

definition item_label :: "node \<Rightarrow> pystr" where
  "item_label item =
     (case find item (ascii ''span'') (Some (ascii ''option-label'')) of
        Some label_element \<Rightarrow> py_rstrip (ascii '':'') (get_text True label_element)
      | None \<Rightarrow> [])"

definition item_text :: "node \<Rightarrow> pystr" where
  "item_text item = (if get_text False item \<noteq> [] then drop 3 (get_text True item) else [])"

text \<open>
  The loop that reads every rendered item into the dictionary (the \<open>except\<close> branch
  and the \<open>else\<close> branch of the source run the same loop): a later item overwrites an
  earlier one with the same label.
\<close>

fun fill_options :: "(pystr \<times> json) list \<Rightarrow> node list \<Rightarrow> (pystr \<times> json) list" where
  "fill_options options_data [] = options_data"
| "fill_options options_data (item # items) =
     fill_options (dict_set options_data (item_label item) (JStr (item_text item))) items"

text \<open>
  \<open>label in options_data\<close> and \<open>options_data[label] = text\<close> on a decoded value. Only a
  dictionary takes a string key; a list or a string answers \<open>in\<close> but refuses the
  assignment, a number, a boolean or \<open>None\<close> refuses \<open>in\<close> already.
\<close>

fun py_contains :: "json \<Rightarrow> pystr \<Rightarrow> pyerr + bool" where
  "py_contains (JObj d) label = Inr (dict_has d label)"
| "py_contains (JArr vs) label = Inr (JStr label \<in> set vs)"
| "py_contains (JStr s) label = Inr (py_in label s)"
| "py_contains (JInt i) label = Inl TypeError"
| "py_contains (JFloat f) label = Inl TypeError"
| "py_contains (JBool b) label = Inl TypeError"
| "py_contains JNull label = Inl TypeError"

fun py_setitem :: "json \<Rightarrow> pystr \<Rightarrow> json \<Rightarrow> pyerr + json" where
  "py_setitem (JObj d) label v = Inr (JObj (dict_set d label v))"
| "py_setitem (JArr vs) label v = Inl TypeError"
| "py_setitem (JStr s) label v = Inl TypeError"
| "py_setitem (JInt i) label v = Inl TypeError"
| "py_setitem (JFloat f) label v = Inl TypeError"
| "py_setitem (JBool b) label v = Inl TypeError"
| "py_setitem JNull label v = Inl TypeError"

text \<open>
  The last loop over the rendered items: an item whose label is not empty and not yet in
  \<open>options_data\<close> is added, every other item is skipped.
\<close>

definition add_option :: "json \<Rightarrow> node \<Rightarrow> pyerr + json" where
  "add_option options_data item =
     (if item_label item = [] then Inr options_data
      else case py_contains options_data (item_label item) of
             Inl e \<Rightarrow> Inl e
           | Inr True \<Rightarrow> Inr options_data
           | Inr False \<Rightarrow> py_setitem options_data (item_label item) (JStr (item_text item)))"

fun add_missing_options :: "json \<Rightarrow> node list \<Rightarrow> pyerr + json" where
  "add_missing_options options_data [] = Inr options_data"
| "add_missing_options options_data (item # items) =
     (case add_option options_data item of
        Inl e \<Rightarrow> Inl e
      | Inr options_data' \<Rightarrow> add_missing_options options_data' items)"

text \<open>
  The options of a question card. \<open>loads\<close> stands for \<open>json.loads\<close>. The attribute is
  used only when it is present and not empty, and \<open>&quot;\<close> is replaced by a double quote
  (code 34) before it is decoded. The \<open>except\<close> clause names \<open>json.JSONDecodeError\<close> only:
  that exception leads to the loop over the rendered items, any other exception of
  \<open>json.loads\<close> leaves the function.
\<close>

definition parse_options :: "(pystr \<Rightarrow> loaded) \<Rightarrow> node \<Rightarrow> pyerr + json" where
  "parse_options loads question_card =
     (case find question_card (ascii ''div'') (Some (ascii ''optionsContainer'')) of
        None \<Rightarrow> Inr (JObj [])
      | Some options_container \<Rightarrow>
          (let option_items =
                 find_all options_container (ascii ''div'') (Some (ascii ''option-item''));
               first_pass =
                 (case get options_container (ascii ''data-options'') of
                    None \<Rightarrow> Inr (JObj (fill_options [] option_items))
                  | Some data_options \<Rightarrow>
                      if data_options = [] then Inr (JObj (fill_options [] option_items))
                      else (case loads (py_replace (ascii ''&quot;'') [34] data_options) of
                              Decoded decoded \<Rightarrow> Inr decoded
                            | JSONDecodeError \<Rightarrow> Inr (JObj (fill_options [] option_items))
                            | Raised e \<Rightarrow> Inl e))
           in case first_pass of
                Inl e \<Rightarrow> Inl e
              | Inr options_data \<Rightarrow> add_missing_options options_data option_items))"

text \<open>\<open>e.get_text(strip=True) if e else ""\<close>.\<close>

definition text_or_empty :: "node option \<Rightarrow> pystr" where
  "text_or_empty e = (case e of Some element \<Rightarrow> get_text True element | None \<Rightarrow> [])"

text \<open>
  The whole extraction, from the soup of a fragment: \<open>Inr None\<close> is the \<open>return None\<close>
  of a fragment with no question card, \<open>Inl\<close> an exception that leaves the function.
\<close>

definition parse_question_from_html ::
  "(pystr \<Rightarrow> loaded) \<Rightarrow> node \<Rightarrow> pyerr + question_info option" where
  "parse_question_from_html loads soup =
     (case find soup (ascii ''div'') (Some (ascii ''question-card'')) of
        None \<Rightarrow> Inr None
      | Some question_card \<Rightarrow>
          (case parse_options loads question_card of
             Inl e \<Rightarrow> Inl e
           | Inr options_data \<Rightarrow>
               Inr (Some \<lparr>
                 qtype = text_or_empty
                   (find question_card (ascii ''span'') (Some (ascii ''question-type''))),
                 question = text_or_empty
                   (find question_card (ascii ''div'') (Some (ascii ''question-text''))),
                 options = options_data,
                 source =
                   (case find question_card (ascii ''div'') (Some (ascii ''question-meta'')) of
                      None \<Rightarrow> []
                    | Some question_meta \<Rightarrow>
                        text_or_empty (find question_meta (ascii ''span'') None)),
                 correct_answer =
                   (case find question_card (ascii ''div'') (Some (ascii ''correct-answer'')) of
                      None \<Rightarrow> []
                    | Some correct_answer_div \<Rightarrow>
                        text_or_empty (find correct_answer_div (ascii ''span'') None)),
                 knowledge_point = text_or_empty
                   (find question_card (ascii ''span'')
                      (Some (ascii ''current-knowledge-point'')))\<rparr>)))"

section \<open>The normalizer: \<open>QuestionCrawler.process_questions\<close>\<close>

text \<open>
  The literals of the source. The two type labels are the code points U+5224 U+65AD
  U+9898 (judgment) and U+591A U+9009 U+9898 (multi-select); the option texts are
  U+6B63 U+786E (true) and U+9519 U+8BEF (false).
\<close>

definition judgment_type :: pystr where
  "judgment_type = [21028, 26029, 39064]"

definition multi_select_type :: pystr where
  "multi_select_type = [22810, 36873, 39064]"

definition true_text :: pystr where
  "true_text = [27491, 30830]"

definition false_text :: pystr where
  "false_text = [38169, 35823]"

text \<open>
  The two lists of the source, in its order: U+6B63 U+786E, U+662F, U+5BF9, \<open>1\<close>,
  \<open>True\<close>, \<open>Y\<close>, \<open>T\<close>, \<open>A\<close> and U+9519 U+8BEF, U+5426, U+4E0D U+5BF9, \<open>0\<close>, \<open>False\<close>,
  \<open>N\<close>, \<open>F\<close>, \<open>B\<close>.
\<close>

definition true_answers :: "pystr list" where
  "true_answers =
     [[27491, 30830], [26159], [23545], ascii ''1'', ascii ''True'', ascii ''Y'',
      ascii ''T'', ascii ''A'']"

definition false_answers :: "pystr list" where
  "false_answers =
     [[38169, 35823], [21542], [19981, 23545], ascii ''0'', ascii ''False'', ascii ''N'',
      ascii ''F'', ascii ''B'']"

text \<open>
  \<open>convert_judgment_to_choice\<close>: the answer is read and stripped first, then the entries
  \<open>A\<close> and \<open>B\<close> of the options are assigned (which only a dictionary accepts), then the
  answer is rewritten.
\<close>

definition convert_judgment_to_choice :: "question_info \<Rightarrow> pyerr + question_info" where
  "convert_judgment_to_choice q =
     (let original_answer = py_strip (correct_answer q) in
      case py_setitem (options q) (ascii ''A'') (JStr true_text) of
        Inl e \<Rightarrow> Inl e
      | Inr options1 \<Rightarrow>
          (case py_setitem options1 (ascii ''B'') (JStr false_text) of
             Inl e \<Rightarrow> Inl e
           | Inr options2 \<Rightarrow>
               Inr (q\<lparr>correct_answer :=
                        (if original_answer \<in> set true_answers \<or> py_in (ascii ''A'') original_answer
                           then ascii ''A''
                         else if original_answer \<in> set false_answers \<or>
                                 py_in (ascii ''B'') original_answer
                           then ascii ''B''
                         else correct_answer q),
                      options := options2\<rparr>)))"

text \<open>
  The chain of \<open>replace\<close> calls on a multi-select answer: \<open>[\<close>, \<open>]\<close>, the space, the
  double quote (34), the single quote (39) and the comma, each replaced by the empty
  string, in this order.
\<close>

definition strip_answer_punctuation :: "pystr \<Rightarrow> pystr" where
  "strip_answer_punctuation s =
     py_replace (ascii '','') []
       (py_replace [39] []
         (py_replace [34] []
           (py_replace (ascii '' '') []
             (py_replace (ascii '']'') []
               (py_replace (ascii ''['') [] s)))))"

text \<open>The two rewriting steps of one round of the loop, before the record is filed.\<close>

definition normalize :: "question_info \<Rightarrow> pyerr + question_info" where
  "normalize q =
     (case (if qtype q = judgment_type then convert_judgment_to_choice q else Inr q) of
        Inl e \<Rightarrow> Inl e
      | Inr q1 \<Rightarrow>
          Inr (if qtype q1 = multi_select_type
               then q1\<lparr>correct_answer := strip_answer_punctuation (correct_answer q1)\<rparr>
               else q1))"

text \<open>
  The loop of \<open>process_questions\<close> with its two result lists: a record whose answer is
  empty after stripping is appended to \<open>empty_answer_questions\<close>, any other to
  \<open>processed_questions\<close>.
\<close>

fun process_loop ::
  "question_info list \<Rightarrow> question_info list \<Rightarrow> question_info list \<Rightarrow>
   pyerr + (question_info list \<times> question_info list)" where
  "process_loop [] processed_questions empty_answer_questions =
     Inr (processed_questions, empty_answer_questions)"
| "process_loop (q # questions) processed_questions empty_answer_questions =
     (case normalize q of
        Inl e \<Rightarrow> Inl e
      | Inr q' \<Rightarrow>
          if py_strip (correct_answer q') = []
          then process_loop questions processed_questions (empty_answer_questions @ [q'])
          else process_loop questions (processed_questions @ [q']) empty_answer_questions)"

definition process_questions ::
  "question_info list \<Rightarrow> pyerr + (question_info list \<times> question_info list)" where
  "process_questions questions = process_loop questions [] []"

section \<open>Concrete fragments and records\<close>

text \<open>
  The trees of small fragments, built as \<open>html.parser\<close> builds them. \<open>sample_item l t\<close> is
  the rendered option of the page,
  \<^verbatim>\<open><div class="option-item"><span class="option-label">l:</span> t</div>\<close>.
\<close>

definition sample_document :: "node list \<Rightarrow> node" where
  "sample_document kids = Tag (ascii ''[document]'') [] [] kids"

definition sample_card :: "node list \<Rightarrow> node" where
  "sample_card kids = Tag (ascii ''div'') [ascii ''question-card''] [] kids"

definition sample_container :: "(pystr \<times> pystr) list \<Rightarrow> node list \<Rightarrow> node" where
  "sample_container attrs items = Tag (ascii ''div'') [ascii ''optionsContainer''] attrs items"

definition sample_item :: "pystr \<Rightarrow> pystr \<Rightarrow> node" where
  "sample_item label text =
     Tag (ascii ''div'') [ascii ''option-item''] []
       [Tag (ascii ''span'') [ascii ''option-label''] [] [NavigableString (label @ ascii '':'')],
        NavigableString (ascii '' '' @ text)]"

text \<open>
  The strings \<^verbatim>\<open>{"A":"x","B":"y"}\<close> and \<^verbatim>\<open>"&quot;"\<close> by their codes, and two thousand
  opening brackets.
\<close>

definition encoded_AB :: pystr where
  "encoded_AB = [123, 34, 65, 34, 58, 34, 120, 34, 44, 34, 66, 34, 58, 34, 121, 34, 125]"

definition quoted_entity :: pystr where
  "quoted_entity = [34, 38, 113, 117, 111, 116, 59, 34]"

definition deep_brackets :: pystr where
  "deep_brackets = replicate 2000 91"

text \<open>
  \<open>json.loads\<close> at the strings the examples pass to it: the object, the number \<open>5\<close>,
  \<open>null\<close> and the JSON string \<^verbatim>\<open>"&quot;"\<close> decode; two thousand opening brackets raise
  \<open>RecursionError\<close>; the two others, \<^verbatim>\<open>{A:x\<close> and three double quotes, raise
  \<open>JSONDecodeError\<close>.
\<close>

definition sample_loads :: "pystr \<Rightarrow> loaded" where
  "sample_loads s =
     (if s = encoded_AB
        then Decoded (JObj [(ascii ''A'', JStr (ascii ''x'')), (ascii ''B'', JStr (ascii ''y''))])
      else if s = ascii ''5'' then Decoded (JInt 5)
      else if s = ascii ''null'' then Decoded JNull
      else if s = quoted_entity then Decoded (JStr (ascii ''&quot;''))
      else if s = deep_brackets then Raised RecursionError
      else JSONDecodeError)"

text \<open>
  A card whose container carries the encoded object for \<open>A\<close> and \<open>B\<close> (with its quotes
  still escaped) and the rendered items \<open>A\<close> and \<open>C\<close>.
\<close>

definition merge_container :: node where
  "merge_container =
     sample_container
       [(ascii ''data-options'', ascii ''{&quot;A&quot;:&quot;x&quot;,&quot;B&quot;:&quot;y&quot;}'')]
       [sample_item (ascii ''A'') (ascii ''apple''), sample_item (ascii ''C'') (ascii ''cherry'')]"

definition merge_soup :: node where
  "merge_soup = sample_document [sample_card [merge_container]]"

text \<open>
  A card whose \<open>data-options\<close> attribute is not JSON, with the rendered items \<open>A\<close> and
  \<open>B\<close>; a card with one rendered item and no attribute; a card whose attribute is the
  JSON number \<open>5\<close>; a card with a prompt and nothing else.
\<close>

definition malformed_container :: node where
  "malformed_container =
     sample_container [(ascii ''data-options'', ascii ''{A:x'')]
       [sample_item (ascii ''A'') (ascii ''apple''), sample_item (ascii ''B'') (ascii ''banana'')]"

definition malformed_soup :: node where
  "malformed_soup = sample_document [sample_card [malformed_container]]"

definition rendered_soup :: node where
  "rendered_soup =
     sample_document [sample_card [sample_container [] [sample_item (ascii ''A'') (ascii ''xyz'')]]]"

definition non_object_soup :: node where
  "non_object_soup =
     sample_document
       [sample_card [sample_container [(ascii ''data-options'', ascii ''5'')]
          [sample_item (ascii ''A'') (ascii ''xyz'')]]]"

text \<open>
  A card whose attribute is the JSON string \<^verbatim>\<open>"&quot;"\<close> before the entity is replaced and
  three double quotes after; a card whose attribute is two thousand opening brackets; a
  judgment card whose attribute is \<open>null\<close>, with no rendered item.
\<close>

definition quoted_soup :: node where
  "quoted_soup =
     sample_document
       [sample_card [sample_container [(ascii ''data-options'', quoted_entity)]
          [sample_item (ascii ''A'') (ascii ''apple''), sample_item (ascii ''B'') (ascii ''banana'')]]]"

definition deep_soup :: node where
  "deep_soup =
     sample_document
       [sample_card [sample_container [(ascii ''data-options'', deep_brackets)]
          [sample_item (ascii ''A'') (ascii ''apple''), sample_item (ascii ''B'') (ascii ''banana'')]]]"

definition null_options_soup :: node where
  "null_options_soup =
     sample_document
       [sample_card
          [Tag (ascii ''span'') [ascii ''question-type''] [] [NavigableString judgment_type],
           sample_container [(ascii ''data-options'', ascii ''null'')] []]]"

definition bare_card :: node where
  "bare_card =
     sample_card
       [Tag (ascii ''div'') [ascii ''question-text''] [] [NavigableString (ascii '' Why? '')]]"

definition bare_soup :: node where
  "bare_soup = sample_document [bare_card]"

text \<open>
  Records for the normalizer. The label of a single-choice question is U+5355 U+9009
  U+9898; the answer \<^verbatim>\<open>["A", "B", "C"]\<close> of a multi-select question is given by its codes.
\<close>

definition single_choice_type :: pystr where
  "single_choice_type = [21333, 36873, 39064]"

definition sample_record :: "pystr \<Rightarrow> json \<Rightarrow> pystr \<Rightarrow> question_info" where
  "sample_record t opts a =
     \<lparr>qtype = t, question = ascii ''Q'', options = opts, source = ascii ''S'',
      correct_answer = a, knowledge_point = ascii ''K''\<rparr>"

definition listed_ABC :: pystr where
  "listed_ABC = [91, 34, 65, 34, 44, 32, 34, 66, 34, 44, 32, 34, 67, 34, 93]"

section \<open>Dictionaries and strings: basic facts\<close>

lemmas sample_defs = sample_document_def sample_card_def sample_container_def sample_item_def
  encoded_AB_def quoted_entity_def sample_loads_def merge_container_def merge_soup_def
  malformed_container_def malformed_soup_def rendered_soup_def non_object_soup_def
  quoted_soup_def deep_soup_def null_options_soup_def bare_card_def bare_soup_def

lemmas type_defs = judgment_type_def multi_select_type_def single_choice_type_def

lemmas answer_defs = true_answers_def false_answers_def true_text_def false_text_def

lemmas eval_defs = ascii_def find_def find_in_def find_all_def find_all_in_def get_text_def
  all_strings_def py_strip_def py_isspace_def py_rstrip_def py_startswith_def item_label_def
  item_text_def text_or_empty_def add_option_def

lemma dict_has_get: "dict_has d k = (dict_get d k \<noteq> None)"
  by (induction d) auto

lemma dict_get_set: "dict_get (dict_set d k v) k' = (if k' = k then Some v else dict_get d k')"
  by (induction d) auto

lemma dict_has_set: "dict_has (dict_set d k v) k' = (k' = k \<or> dict_has d k')"
  by (induction d) (auto split: if_splits)

lemma dict_set_same: "dict_get d k = Some v \<Longrightarrow> dict_set d k v = d"
  by (induction d) (auto split: if_splits)



lemma py_replace_char: "py_replace [c] [] s = filter (\<lambda>x. x \<noteq> c) s"
  by (induction s) (auto simp: py_startswith_def)

lemma py_in_char: "py_in [a] s = (a \<in> set s)"
  by (induction s) (auto simp: py_startswith_def)

lemma py_replace_absent: "c \<notin> set s \<Longrightarrow> py_replace (c # old) new s = s"
  by (induction s) (auto simp: py_startswith_def)

lemma deep_brackets_length: "length deep_brackets = 2000"
  by (simp add: deep_brackets_def)

lemma deep_brackets_differs:
  "length s < 2000 \<Longrightarrow> s \<noteq> deep_brackets" "length s < 2000 \<Longrightarrow> deep_brackets \<noteq> s"
  using deep_brackets_length by auto

lemma deep_brackets_unescaped: "py_replace (ascii ''&quot;'') [34] deep_brackets = deep_brackets"
proof -
  have "38 \<notin> set deep_brackets" by (simp add: deep_brackets_def)
  then have "py_replace (38 # ascii ''quot;'') [34] deep_brackets = deep_brackets"
    by (rule py_replace_absent)
  then show ?thesis by (simp add: ascii_def)
qed

section \<open>The two loops over the rendered items\<close>

lemma dict_has_fill_options:
  "dict_has (fill_options d items) l = (dict_has d l \<or> l \<in> item_label ` set items)"
  by (induction items arbitrary: d) (auto simp: dict_has_set)

lemma add_missing_options_present:
  "(\<forall>i \<in> set items. item_label i = [] \<or> dict_has d (item_label i)) \<Longrightarrow>
   add_missing_options (JObj d) items = Inr (JObj d)"
  by (induction items) (auto simp: add_option_def)

lemma add_missing_options_after_fill:
  "add_missing_options (JObj (fill_options d items)) items = Inr (JObj (fill_options d items))"
  by (rule add_missing_options_present) (simp add: dict_has_fill_options)

text \<open>
  On a dictionary the last loop never fails, and the dictionary it leaves answers every
  label as the encoded dictionary did; a label the encoded dictionary lacks gets the text
  of the first rendered item that carries it.
\<close>

lemma add_missing_options_dict:
  "\<exists>m. add_missing_options (JObj d) items = Inr (JObj m) \<and>
       (\<forall>l. dict_get m l =
          (case dict_get d l of
             Some v \<Rightarrow> Some v
           | None \<Rightarrow> if l = [] then None
                     else map_option (\<lambda>i. JStr (item_text i))
                            (List.find (\<lambda>i. item_label i = l) items)))"
proof (induction items arbitrary: d)
  case Nil
  show ?case by (auto split: option.splits)
next
  case (Cons item items)
  show ?case
  proof (cases "item_label item = [] \<or> dict_has d (item_label item)")
    case True
    from Cons.IH [of d] obtain m where
      m: "add_missing_options (JObj d) items = Inr (JObj m)"
      and g: "\<And>l. dict_get m l =
          (case dict_get d l of Some v \<Rightarrow> Some v
           | None \<Rightarrow> if l = [] then None
                     else map_option (\<lambda>i. JStr (item_text i))
                            (List.find (\<lambda>i. item_label i = l) items))"
      by blast
    from True m have "add_missing_options (JObj d) (item # items) = Inr (JObj m)"
      by (auto simp: add_option_def)
    moreover have "dict_get m l =
          (case dict_get d l of Some v \<Rightarrow> Some v
           | None \<Rightarrow> if l = [] then None
                     else map_option (\<lambda>i. JStr (item_text i))
                            (List.find (\<lambda>i. item_label i = l) (item # items)))" for l
      using True by (auto simp: g dict_has_get split: option.splits)
    ultimately show ?thesis by blast
  next
    case False
    let ?d' = "dict_set d (item_label item) (JStr (item_text item))"
    from Cons.IH [of ?d'] obtain m where
      m: "add_missing_options (JObj ?d') items = Inr (JObj m)"
      and g: "\<And>l. dict_get m l =
          (case dict_get ?d' l of Some v \<Rightarrow> Some v
           | None \<Rightarrow> if l = [] then None
                     else map_option (\<lambda>i. JStr (item_text i))
                            (List.find (\<lambda>i. item_label i = l) items))"
      by blast
    from False m have "add_missing_options (JObj d) (item # items) = Inr (JObj m)"
      by (auto simp: add_option_def)
    moreover have "dict_get m l =
          (case dict_get d l of Some v \<Rightarrow> Some v
           | None \<Rightarrow> if l = [] then None
                     else map_option (\<lambda>i. JStr (item_text i))
                            (List.find (\<lambda>i. item_label i = l) (item # items)))" for l
      using False by (auto simp: g dict_get_set dict_has_get split: option.splits)
    ultimately show ?thesis by blast
  qed
qed

section \<open>Extraction: the options of a card\<close>

text \<open>
  The tie-break between the two sources. When the options container of the question
  card carries a non-empty \<open>data-options\<close> attribute that, once \<open>&quot;\<close> is unescaped,
  decodes to an object, extraction returns a record whose options are a dictionary
  seeded from that object: every label of the object keeps the object's value, and a
  non-empty label the object lacks gets \<open>item_text\<close> of the first rendered item carrying
  it. Labels of neither source are absent.
\<close>

lemma option_merge_tie_break:
  assumes "find soup (ascii ''div'') (Some (ascii ''question-card'')) = Some question_card"
    and "find question_card (ascii ''div'') (Some (ascii ''optionsContainer'')) =
           Some options_container"
    and "get options_container (ascii ''data-options'') = Some data_options"
    and "data_options \<noteq> []"
    and "loads (py_replace (ascii ''&quot;'') [34] data_options) = Decoded (JObj encoded)"
  shows "\<exists>q merged. parse_question_from_html loads soup = Inr (Some q) \<and>
           options q = JObj merged \<and>
           (\<forall>label. dict_get merged label =
              (case dict_get encoded label of
                 Some v \<Rightarrow> Some v
               | None \<Rightarrow>
                   if label = [] then None
                   else map_option (\<lambda>item. JStr (item_text item))
                          (List.find (\<lambda>item. item_label item = label)
                             (find_all options_container (ascii ''div'')
                                (Some (ascii ''option-item''))))))"
proof -
  let ?items = "find_all options_container (ascii ''div'') (Some (ascii ''option-item''))"
  from add_missing_options_dict [of encoded ?items] obtain merged where
    m: "add_missing_options (JObj encoded) ?items = Inr (JObj merged)"
    and g: "\<forall>label. dict_get merged label =
              (case dict_get encoded label of
                 Some v \<Rightarrow> Some v
               | None \<Rightarrow>
                   if label = [] then None
                   else map_option (\<lambda>item. JStr (item_text item))
                          (List.find (\<lambda>item. item_label item = label) ?items))"
    by blast
  from assms m have "parse_options loads question_card = Inr (JObj merged)"
    by (simp add: parse_options_def)
  with assms(1) g show ?thesis
    by (simp add: parse_question_from_html_def)
qed

text \<open>
  C1 (option-merge tie-break), at the example of the claim: the attribute holds the
  object for \<open>A\<close> and \<open>B\<close> (its quotes escaped), the rendered items are \<open>A: apple\<close> and
  \<open>C: cherry\<close>. The values of \<open>A\<close> and \<open>B\<close> are those of the object and \<open>C\<close> is added, but
  with the text \<open>herry\<close>: the item rendered as \<open>C: cherry\<close> has lost the first character of
  its text, as every rendered item does.
\<close>

theorem merged_option_text_loses_first_character:
  "get_text False (sample_item (ascii ''C'') (ascii ''cherry'')) = ascii ''C: cherry'' \<and>
   item_label (sample_item (ascii ''C'') (ascii ''cherry'')) = ascii ''C'' \<and>
   item_text (sample_item (ascii ''C'') (ascii ''cherry'')) = ascii ''herry'' \<and>
   sample_loads
     (py_replace (ascii ''&quot;'') [34]
        (ascii ''{&quot;A&quot;:&quot;x&quot;,&quot;B&quot;:&quot;y&quot;}'')) =
     Decoded (JObj [(ascii ''A'', JStr (ascii ''x'')), (ascii ''B'', JStr (ascii ''y''))]) \<and>
   parse_question_from_html sample_loads merge_soup =
     Inr (Some \<lparr>qtype = [], question = [],
       options = JObj [(ascii ''A'', JStr (ascii ''x'')), (ascii ''B'', JStr (ascii ''y'')),
                       (ascii ''C'', JStr (ascii ''herry''))],
       source = [], correct_answer = [], knowledge_point = []\<rparr>)"
  by (simp add: sample_defs eval_defs parse_question_from_html_def parse_options_def)

text \<open>
  The fallback. The attribute is decoded after \<open>&quot;\<close> has been replaced by the double
  quote. When that decoding raises \<open>JSONDecodeError\<close>, extraction does not raise: it
  returns a record whose options are exactly what the loop over the rendered items
  builds from the empty dictionary, and this is what \<open>parse_options\<close> returns for any
  card whose container has the same rendered items and no attribute at all.
\<close>

lemma decode_error_falls_back:
  assumes "find soup (ascii ''div'') (Some (ascii ''question-card'')) = Some question_card"
    and "find question_card (ascii ''div'') (Some (ascii ''optionsContainer'')) =
           Some options_container"
    and "get options_container (ascii ''data-options'') = Some data_options"
    and "data_options \<noteq> []"
    and "loads (py_replace (ascii ''&quot;'') [34] data_options) = JSONDecodeError"
  shows "\<exists>q. parse_question_from_html loads soup = Inr (Some q) \<and>
           options q =
             JObj (fill_options []
                     (find_all options_container (ascii ''div'') (Some (ascii ''option-item'')))) \<and>
           (\<forall>card' container'.
              find card' (ascii ''div'') (Some (ascii ''optionsContainer'')) = Some container' \<and>
              get container' (ascii ''data-options'') = None \<and>
              find_all container' (ascii ''div'') (Some (ascii ''option-item'')) =
                find_all options_container (ascii ''div'') (Some (ascii ''option-item''))
              \<longrightarrow> parse_options loads card' = Inr (options q))"
proof -
  let ?items = "find_all options_container (ascii ''div'') (Some (ascii ''option-item''))"
  from assms have "parse_options loads question_card = Inr (JObj (fill_options [] ?items))"
    by (simp add: parse_options_def add_missing_options_after_fill)
  with assms(1) show ?thesis
    by (simp add: parse_question_from_html_def parse_options_def add_missing_options_after_fill)
qed

lemma decode_error_falls_back_example:
  "sample_loads (py_replace (ascii ''&quot;'') [34] (ascii ''{A:x'')) = JSONDecodeError \<and>
   parse_question_from_html sample_loads malformed_soup =
     Inr (Some \<lparr>qtype = [], question = [],
       options = JObj [(ascii ''A'', JStr (ascii ''pple'')), (ascii ''B'', JStr (ascii ''anana''))],
       source = [], correct_answer = [], knowledge_point = []\<rparr>)"
  by (simp add: sample_defs eval_defs parse_question_from_html_def parse_options_def
        deep_brackets_differs)

text \<open>
  That the entity is replaced before the decoding, and not after or not at all, shows at
  the attribute \<^verbatim>\<open>"&quot;"\<close>: as it stands it is the JSON string \<open>&quot;\<close>, on which the
  last loop would raise \<open>TypeError\<close>; with the entity replaced it is three double quotes,
  which do not decode, and the rendered items are read.
\<close>

lemma unescaped_before_decoding_example:
  "sample_loads quoted_entity = Decoded (JStr (ascii ''&quot;'')) \<and>
   py_replace (ascii ''&quot;'') [34] quoted_entity = [34, 34, 34] \<and>
   sample_loads [34, 34, 34] = JSONDecodeError \<and>
   parse_question_from_html sample_loads quoted_soup =
     Inr (Some \<lparr>qtype = [], question = [],
       options = JObj [(ascii ''A'', JStr (ascii ''pple'')), (ascii ''B'', JStr (ascii ''anana''))],
       source = [], correct_answer = [], knowledge_point = []\<rparr>)"
  by (simp add: sample_defs eval_defs parse_question_from_html_def parse_options_def
        deep_brackets_differs)

text \<open>
  C8 (malformed encoded options), at an attribute of two thousand opening brackets,
  with the rendered items \<open>A\<close> and \<open>B\<close>: the text is not JSON, \<open>json.loads\<close> raises
  \<open>RecursionError\<close> on it, the \<open>except\<close> clause does not name that exception, and it leaves
  \<open>parse_question_from_html\<close>. The rendered items are not read and no record is returned.
\<close>

theorem undecodable_options_raise:
  "find deep_soup (ascii ''div'') (Some (ascii ''question-card'')) \<noteq> None \<and>
   py_replace (ascii ''&quot;'') [34] deep_brackets = deep_brackets \<and>
   sample_loads deep_brackets = Raised RecursionError \<and>
   parse_question_from_html sample_loads deep_soup = Inl RecursionError"
proof -
  have u: "py_replace [38, 113, 117, 111, 116, 59] [34] deep_brackets = deep_brackets"
    by (rule py_replace_absent) (simp add: deep_brackets_def)
  have l: "sample_loads deep_brackets = Raised RecursionError"
    by (simp add: sample_loads_def encoded_AB_def quoted_entity_def ascii_def
          deep_brackets_differs)
  have e: "deep_brackets \<noteq> []"
    by (rule deep_brackets_differs) simp
  from u l e show ?thesis
    by (simp add: sample_document_def sample_card_def sample_container_def sample_item_def
          deep_soup_def eval_defs parse_question_from_html_def parse_options_def)
qed

section \<open>Extraction: the text of a rendered item\<close>

text \<open>
  \<open>get_text(strip=True)\<close> strips the label span and the text node separately and joins
  them with nothing in between, so the blank after the colon is gone before the slice
  \<open>[3:]\<close> is taken: for an item rendered as \<open>l: t\<close> with a one-character label the slice
  removes the label, the colon and the first character of the text.
\<close>

lemma py_strip_leading_space: "py_isspace c \<Longrightarrow> py_strip (c # s) = py_strip s"
  by (simp add: py_strip_def)

lemma py_strip_label: "\<not> py_isspace l \<Longrightarrow> py_strip ([l] @ ascii '':'') = [l] @ ascii '':''"
  by (simp add: py_strip_def py_isspace_def ascii_def)

lemma rendered_text_off_by_one:
  assumes "\<not> py_isspace l"
  shows "item_label (sample_item [l] t) = py_rstrip (ascii '':'') [l] \<and>
         item_text (sample_item [l] t) = drop 1 (py_strip t)"
proof -
  have sp: "py_isspace 32" by (simp add: py_isspace_def)
  have a: "py_strip (ascii '' '' @ t) = py_strip t"
    using py_strip_leading_space [OF sp, of t] by (simp add: ascii_def)
  have b: "py_strip ([l] @ ascii '':'') = [l] @ ascii '':''"
    by (rule py_strip_label [OF assms])
  have c: "[l] @ ascii '':'' \<noteq> []" by simp
  have lab: "item_label (sample_item [l] t) = py_rstrip (ascii '':'') ([l] @ ascii '':'')"
    using b c
    by (simp add: sample_item_def item_label_def find_def find_in_def find_all_in_def
          get_text_def all_strings_def ascii_def)
  have "py_rstrip (ascii '':'') ([l] @ ascii '':'') = py_rstrip (ascii '':'') [l]"
    by (simp add: py_rstrip_def ascii_def)
  with lab have 1: "item_label (sample_item [l] t) = py_rstrip (ascii '':'') [l]" by simp
  have 2: "item_text (sample_item [l] t) = drop 1 (py_strip t)"
    using a b by (simp add: sample_item_def item_text_def get_text_def all_strings_def ascii_def)
  from 1 2 show ?thesis by simp
qed

text \<open>
  C4 (rendered-item option text), at the item
  \<^verbatim>\<open><div class="option-item"><span class="option-label">A:</span> xyz</div>\<close>, which is
  rendered as \<open>A: xyz\<close>: the label is \<open>A\<close>, the stripped text is \<open>A:xyz\<close>, and the option
  text the parser stores is \<open>yz\<close>, not \<open>xyz\<close>.
\<close>

theorem rendered_option_text_loses_first_character:
  "get_text False (sample_item (ascii ''A'') (ascii ''xyz'')) = ascii ''A: xyz'' \<and>
   get_text True (sample_item (ascii ''A'') (ascii ''xyz'')) = ascii ''A:xyz'' \<and>
   item_label (sample_item (ascii ''A'') (ascii ''xyz'')) = ascii ''A'' \<and>
   item_text (sample_item (ascii ''A'') (ascii ''xyz'')) = ascii ''yz'' \<and>
   parse_question_from_html loads rendered_soup =
     Inr (Some \<lparr>qtype = [], question = [],
       options = JObj [(ascii ''A'', JStr (ascii ''yz''))],
       source = [], correct_answer = [], knowledge_point = []\<rparr>)"
  by (simp add: sample_defs eval_defs parse_question_from_html_def parse_options_def)

section \<open>Extraction: missing parts and failures\<close>

text \<open>A fragment without a question card yields \<open>None\<close>, whatever else it holds.\<close>

lemma missing_wrapper_is_absent:
  assumes "find soup (ascii ''div'') (Some (ascii ''question-card'')) = None"
  shows "parse_question_from_html loads soup = Inr None"
  using assms by (simp add: parse_question_from_html_def)

text \<open>
  A card without an options container yields a record with the empty dictionary, and
  every other part that is not found yields the empty string.
\<close>

lemma missing_fields_default_to_empty:
  assumes "find soup (ascii ''div'') (Some (ascii ''question-card'')) = Some question_card"
    and "find question_card (ascii ''div'') (Some (ascii ''optionsContainer'')) = None"
  shows "\<exists>q. parse_question_from_html loads soup = Inr (Some q) \<and> options q = JObj [] \<and>
     (find question_card (ascii ''span'') (Some (ascii ''question-type'')) = None \<longrightarrow> qtype q = []) \<and>
     (find question_card (ascii ''div'') (Some (ascii ''question-text'')) = None \<longrightarrow> question q = []) \<and>
     (find question_card (ascii ''div'') (Some (ascii ''question-meta'')) = None \<longrightarrow> source q = []) \<and>
     (find question_card (ascii ''div'') (Some (ascii ''correct-answer'')) = None \<longrightarrow>
        correct_answer q = []) \<and>
     (find question_card (ascii ''span'') (Some (ascii ''current-knowledge-point'')) = None \<longrightarrow>
        knowledge_point q = [])"
  using assms by (simp add: parse_question_from_html_def parse_options_def text_or_empty_def)

lemma missing_fields_default_to_empty_example:
  "find bare_soup (ascii ''div'') (Some (ascii ''question-card'')) = Some bare_card \<and>
   parse_question_from_html loads bare_soup =
     Inr (Some \<lparr>qtype = [], question = ascii ''Why?'', options = JObj [],
       source = [], correct_answer = [], knowledge_point = []\<rparr>)"
  by (simp add: sample_defs eval_defs parse_question_from_html_def parse_options_def)

text \<open>
  A card is turned into a record, and the options of the record are a dictionary,
  whenever the decoding of the attribute (if it is there and not empty) raises
  \<open>JSONDecodeError\<close> or returns an object.
\<close>

lemma object_attribute_never_raises:
  assumes "find soup (ascii ''div'') (Some (ascii ''question-card'')) = Some question_card"
    and "\<forall>container data_options.
           find question_card (ascii ''div'') (Some (ascii ''optionsContainer'')) = Some container \<and>
           get container (ascii ''data-options'') = Some data_options \<and> data_options \<noteq> []
           \<longrightarrow> loads (py_replace (ascii ''&quot;'') [34] data_options) = JSONDecodeError \<or>
               (\<exists>encoded. loads (py_replace (ascii ''&quot;'') [34] data_options) =
                  Decoded (JObj encoded))"
  shows "\<exists>q m. parse_question_from_html loads soup = Inr (Some q) \<and> options q = JObj m"
proof -
  have "\<exists>m. parse_options loads question_card = Inr (JObj m)"
  proof (cases "find question_card (ascii ''div'') (Some (ascii ''optionsContainer''))")
    case None
    then show ?thesis by (simp add: parse_options_def Let_def)
  next
    case (Some container)
    let ?items = "find_all container (ascii ''div'') (Some (ascii ''option-item''))"
    have dict: "\<exists>m. add_missing_options (JObj d) ?items = Inr (JObj m)" for d
      using add_missing_options_dict [of d ?items] by blast
    show ?thesis
    proof (cases "get container (ascii ''data-options'')")
      case None
      with Some dict show ?thesis by (simp add: parse_options_def Let_def)
    next
      case attr: (Some data_options)
      show ?thesis
      proof (cases "data_options = []")
        case True
        with Some attr dict show ?thesis by (simp add: parse_options_def Let_def)
      next
        case False
        with assms(2) Some attr
        consider "loads (py_replace (ascii ''&quot;'') [34] data_options) = JSONDecodeError"
          | encoded where
            "loads (py_replace (ascii ''&quot;'') [34] data_options) = Decoded (JObj encoded)"
          by blast
        then show ?thesis
        proof cases
          case 1
          with Some attr False dict show ?thesis by (simp add: parse_options_def Let_def)
        next
          case 2
          with Some attr False dict show ?thesis by (simp add: parse_options_def Let_def)
        qed
      qed
    qed
  qed
  with assms(1) show ?thesis by (auto simp: parse_question_from_html_def)
qed

text \<open>
  C7 (the missing wrapper as the only hard failure), at a fragment that has the
  wrapper: the attribute \<open>data-options="5"\<close> decodes without error to the number \<open>5\<close>, the
  test \<open>label not in options_data\<close> of the first rendered item is then applied to that
  number, and the \<open>TypeError\<close> it raises leaves \<open>parse_question_from_html\<close>. No record is
  returned.
\<close>

theorem non_object_encoded_options_raise:
  "find non_object_soup (ascii ''div'') (Some (ascii ''question-card'')) \<noteq> None \<and>
   sample_loads (py_replace (ascii ''&quot;'') [34] (ascii ''5'')) = Decoded (JInt 5) \<and>
   parse_question_from_html sample_loads non_object_soup = Inl TypeError"
  by (simp add: sample_defs eval_defs parse_question_from_html_def parse_options_def)

section \<open>Normalization of one record\<close>

lemma strip_answer_punctuation_filter:
  "strip_answer_punctuation s = filter (\<lambda>c. c \<notin> {91, 93, 32, 34, 39, 44}) s"
  by (simp add: strip_answer_punctuation_def ascii_def py_replace_char conj_commute
        conj_left_commute)

lemma multi_select_not_judgment: "multi_select_type \<noteq> judgment_type"
  by (simp add: type_defs)

lemma convert_judgment_dict:
  "options q = JObj d \<Longrightarrow>
   convert_judgment_to_choice q =
     Inr (q\<lparr>correct_answer :=
             (if py_strip (correct_answer q) \<in> set true_answers \<or>
                 py_in (ascii ''A'') (py_strip (correct_answer q)) then ascii ''A''
              else if py_strip (correct_answer q) \<in> set false_answers \<or>
                      py_in (ascii ''B'') (py_strip (correct_answer q)) then ascii ''B''
              else correct_answer q),
           options := JObj (dict_set (dict_set d (ascii ''A'') (JStr true_text))
                              (ascii ''B'') (JStr false_text))\<rparr>)"
  by (simp add: convert_judgment_to_choice_def Let_def)

lemma convert_judgment_not_dict:
  "(\<forall>d. options q \<noteq> JObj d) \<Longrightarrow> convert_judgment_to_choice q = Inl TypeError"
  by (cases "options q") (simp_all add: convert_judgment_to_choice_def Let_def)

lemma normalize_judgment:
  "qtype q = judgment_type \<Longrightarrow> normalize q = convert_judgment_to_choice q"
  by (cases "convert_judgment_to_choice q")
     (auto simp: normalize_def convert_judgment_to_choice_def Let_def type_defs
           split: sum.splits)

lemma normalize_total:
  assumes "qtype q = judgment_type \<longrightarrow> (\<exists>d. options q = JObj d)"
  shows "\<exists>q'. normalize q = Inr q'"
proof (cases "qtype q = judgment_type")
  case True
  with assms obtain d where "options q = JObj d" by blast
  with True show ?thesis by (simp add: normalize_judgment convert_judgment_dict)
next
  case False
  then show ?thesis by (simp add: normalize_def)
qed

text \<open>
  C6 (multi-select answer). For a record whose type is the multi-select label,
  normalization succeeds and returns the record with every \<open>[\<close> (91), \<open>]\<close> (93), space
  (32), double quote (34), single quote (39) and comma (44) removed from
  \<open>correct_answer\<close>; the other characters stay, in their order, and no other field
  changes. The witness is the answer \<^verbatim>\<open>["A", "B", "C"]\<close>, which becomes \<open>ABC\<close>.
\<close>

theorem multi_select_answer_canonical:
  assumes "qtype q = multi_select_type"
  shows "normalize q =
           Inr (q\<lparr>correct_answer :=
                    filter (\<lambda>c. c \<notin> {91, 93, 32, 34, 39, 44}) (correct_answer q)\<rparr>)"
  using assms
  by (simp add: normalize_def multi_select_not_judgment strip_answer_punctuation_filter)

theorem multi_select_answer_canonical_witness:
  "qtype (sample_record multi_select_type (JObj []) listed_ABC) = multi_select_type \<and>
   normalize (sample_record multi_select_type (JObj []) listed_ABC) =
     Inr (sample_record multi_select_type (JObj []) (ascii ''ABC''))"
  using multi_select_answer_canonical [of "sample_record multi_select_type (JObj []) listed_ABC"]
  by (simp add: sample_record_def listed_ABC_def ascii_def)

text \<open>
  The rewriting of a judgment record whose options are a dictionary, in one equation:
  the entries \<open>A\<close> and \<open>B\<close> are assigned, and the answer becomes \<open>A\<close>, \<open>B\<close> or stays, by
  the two lists and the characters \<open>A\<close> (65) and \<open>B\<close> (66), the test for \<open>A\<close> first.
\<close>

lemma judgment_answer_remap:
  assumes "qtype q = judgment_type" and "options q = JObj d"
  shows "normalize q =
     Inr (q\<lparr>correct_answer :=
             (if py_strip (correct_answer q) \<in> set true_answers \<or>
                 65 \<in> set (py_strip (correct_answer q)) then ascii ''A''
              else if py_strip (correct_answer q) \<in> set false_answers \<or>
                      66 \<in> set (py_strip (correct_answer q)) then ascii ''B''
              else correct_answer q),
           options := JObj (dict_set (dict_set d (ascii ''A'') (JStr true_text))
                              (ascii ''B'') (JStr false_text))\<rparr>)"
proof -
  have "py_in (ascii ''A'') s = (65 \<in> set s)" "py_in (ascii ''B'') s = (66 \<in> set s)" for s
    by (simp_all add: ascii_def py_in_char)
  with assms show ?thesis
    by (simp add: normalize_judgment convert_judgment_dict)
qed

lemma judgment_answer_remap_example:
  "normalize (sample_record judgment_type (JObj [(ascii ''A'', JStr (ascii ''yes''))])
                (ascii ''B or A'')) =
     Inr (sample_record judgment_type
            (JObj [(ascii ''A'', JStr true_text), (ascii ''B'', JStr false_text)]) (ascii ''A''))"
  by (simp add: sample_record_def normalize_judgment convert_judgment_dict answer_defs
        ascii_def py_strip_def py_isspace_def py_startswith_def)

text \<open>
  C2 (judgment answer), at the answer U+9519 alone: it is in neither list (the second
  list holds U+9519 U+8BEF, not U+9519) and contains neither \<open>A\<close> nor \<open>B\<close>, so the record
  keeps it, here and in the batch. The answers U+9519 U+8BEF and U+5BF9 become \<open>B\<close> and
  \<open>A\<close>.
\<close>

theorem judgment_answer_cuo_unchanged:
  "normalize (sample_record judgment_type (JObj []) [38169]) =
     Inr (sample_record judgment_type
            (JObj [(ascii ''A'', JStr true_text), (ascii ''B'', JStr false_text)]) [38169]) \<and>
   process_questions [sample_record judgment_type (JObj []) [38169]] =
     Inr ([sample_record judgment_type
            (JObj [(ascii ''A'', JStr true_text), (ascii ''B'', JStr false_text)]) [38169]], []) \<and>
   normalize (sample_record judgment_type (JObj []) [38169, 35823]) =
     Inr (sample_record judgment_type
            (JObj [(ascii ''A'', JStr true_text), (ascii ''B'', JStr false_text)]) (ascii ''B'')) \<and>
   normalize (sample_record judgment_type (JObj []) [23545]) =
     Inr (sample_record judgment_type
            (JObj [(ascii ''A'', JStr true_text), (ascii ''B'', JStr false_text)]) (ascii ''A''))"
  by (simp add: sample_record_def normalize_judgment convert_judgment_dict answer_defs
        process_questions_def ascii_def py_strip_def py_isspace_def py_startswith_def)




text \<open>
  C9 (frame). Normalization of a record succeeds when the record is not a judgment
  record or its options are a dictionary; the result has the prompt, the source, the
  knowledge point and the type of the record, and is the record itself when the type is
  neither the judgment nor the multi-select label.
\<close>

theorem normalization_frame:
  assumes "qtype q = judgment_type \<longrightarrow> (\<exists>d. options q = JObj d)"
  shows "\<exists>q'. normalize q = Inr q' \<and>
           question q' = question q \<and> source q' = source q \<and>
           knowledge_point q' = knowledge_point q \<and> qtype q' = qtype q \<and>
           (qtype q \<noteq> judgment_type \<and> qtype q \<noteq> multi_select_type \<longrightarrow> q' = q)"
proof (cases "qtype q = judgment_type")
  case True
  with assms obtain d where "options q = JObj d" by blast
  with True show ?thesis by (simp add: normalize_judgment convert_judgment_dict)
next
  case False
  then show ?thesis by (simp add: normalize_def)
qed

theorem normalization_frame_witness:
  "qtype (sample_record judgment_type (JObj []) [23545]) = judgment_type \<and>
   options (sample_record judgment_type (JObj []) [23545]) = JObj [] \<and>
   normalize (sample_record judgment_type (JObj []) [23545]) =
     Inr (sample_record judgment_type
            (JObj [(ascii ''A'', JStr true_text), (ascii ''B'', JStr false_text)]) (ascii ''A'')) \<and>
   normalize (sample_record single_choice_type (JObj []) (ascii '' B '')) =
     Inr (sample_record single_choice_type (JObj []) (ascii '' B ''))"
  using normalization_frame [of "sample_record judgment_type (JObj []) [23545]"]
    normalization_frame [of "sample_record single_choice_type (JObj []) (ascii '' B '')"]
  by (simp add: sample_record_def normalize_judgment convert_judgment_dict answer_defs
        type_defs normalize_def ascii_def py_strip_def py_isspace_def)

text \<open>
  Normalizing a second time: the answers \<open>A\<close> and \<open>B\<close> are in the lists themselves, and
  the entries \<open>A\<close> and \<open>B\<close> already hold the two fixed texts.
\<close>

lemma strip_A: "py_strip (ascii ''A'') = ascii ''A''"
  by (simp add: ascii_def py_strip_def py_isspace_def)

lemma strip_B: "py_strip (ascii ''B'') = ascii ''B''"
  by (simp add: ascii_def py_strip_def py_isspace_def)

lemma A_true: "ascii ''A'' \<in> set true_answers"
  by (simp add: true_answers_def)

lemma B_false: "ascii ''B'' \<in> set false_answers" "ascii ''B'' \<notin> set true_answers"
  "\<not> py_in (ascii ''A'') (ascii ''B'')"
  by (simp_all add: answer_defs ascii_def py_startswith_def)

lemma convert_judgment_idem:
  assumes "convert_judgment_to_choice q = Inr q'"
  shows "convert_judgment_to_choice q' = Inr q'"
proof -
  from assms obtain d where d: "options q = JObj d"
    using convert_judgment_not_dict [of q] by (cases "options q") auto
  let ?d' = "dict_set (dict_set d (ascii ''A'') (JStr true_text)) (ascii ''B'') (JStr false_text)"
  have ne: "ascii ''A'' \<noteq> ascii ''B''" by (simp add: ascii_def)
  have gA: "dict_get ?d' (ascii ''A'') = Some (JStr true_text)"
    using ne by (simp add: dict_get_set)
  have gB: "dict_get ?d' (ascii ''B'') = Some (JStr false_text)"
    by (simp add: dict_get_set)
  have same:
    "dict_set (dict_set ?d' (ascii ''A'') (JStr true_text)) (ascii ''B'') (JStr false_text) = ?d'"
    by (simp only: dict_set_same [OF gA] dict_set_same [OF gB])
  from assms d have q': "q' = q\<lparr>correct_answer :=
             (if py_strip (correct_answer q) \<in> set true_answers \<or>
                 py_in (ascii ''A'') (py_strip (correct_answer q)) then ascii ''A''
              else if py_strip (correct_answer q) \<in> set false_answers \<or>
                      py_in (ascii ''B'') (py_strip (correct_answer q)) then ascii ''B''
              else correct_answer q),
           options := JObj ?d'\<rparr>"
    by (simp add: convert_judgment_dict)
  have o': "options q' = JObj ?d'" by (simp add: q')
  show ?thesis
    unfolding convert_judgment_dict [OF o'] same
    by (simp add: q' strip_A strip_B A_true B_false)
qed

text \<open>
  C10 (idempotence). Whatever normalization returns for a record, normalization returns
  again when applied to that result: the judgment conversion and the stripping of a
  multi-select answer change nothing the second time.
\<close>

theorem normalization_idempotent:
  assumes "normalize q = Inr q'"
  shows "normalize q' = Inr q'"
proof (cases "qtype q = judgment_type")
  case True
  with assms have c: "convert_judgment_to_choice q = Inr q'"
    by (simp add: normalize_judgment)
  then obtain d where "options q = JObj d"
    using convert_judgment_not_dict [of q] by (cases "options q") auto
  with c True have "qtype q' = judgment_type"
    by (auto simp: convert_judgment_dict)
  with convert_judgment_idem [OF c] show ?thesis
    by (simp add: normalize_judgment)
next
  case False
  show ?thesis
  proof (cases "qtype q = multi_select_type")
    case True
    with assms False
    have "q' = q\<lparr>correct_answer := strip_answer_punctuation (correct_answer q)\<rparr>"
      by (simp add: normalize_def)
    with True False show ?thesis
      by (simp add: normalize_def strip_answer_punctuation_filter)
  next
    case nm: False
    with assms False have "q' = q" by (simp add: normalize_def)
    with False nm show ?thesis by (simp add: normalize_def)
  qed
qed

theorem normalization_idempotent_witness:
  "normalize (sample_record judgment_type (JObj [(ascii ''C'', JStr (ascii ''maybe''))])
                (ascii '' B '')) =
     Inr (sample_record judgment_type
            (JObj [(ascii ''C'', JStr (ascii ''maybe'')), (ascii ''A'', JStr true_text),
                   (ascii ''B'', JStr false_text)]) (ascii ''B'')) \<and>
   normalize (sample_record judgment_type
                (JObj [(ascii ''C'', JStr (ascii ''maybe'')), (ascii ''A'', JStr true_text),
                       (ascii ''B'', JStr false_text)]) (ascii ''B'')) =
     Inr (sample_record judgment_type
            (JObj [(ascii ''C'', JStr (ascii ''maybe'')), (ascii ''A'', JStr true_text),
                   (ascii ''B'', JStr false_text)]) (ascii ''B''))"
proof -
  have first:
    "normalize (sample_record judgment_type (JObj [(ascii ''C'', JStr (ascii ''maybe''))])
                  (ascii '' B '')) =
       Inr (sample_record judgment_type
              (JObj [(ascii ''C'', JStr (ascii ''maybe'')), (ascii ''A'', JStr true_text),
                     (ascii ''B'', JStr false_text)]) (ascii ''B''))"
    by (simp add: sample_record_def normalize_judgment convert_judgment_dict answer_defs
          ascii_def py_strip_def py_isspace_def py_startswith_def)
  from first normalization_idempotent [OF first] show ?thesis by simp
qed

section \<open>The two partitions\<close>

lemma process_loop_partition:
  "list_all2 (\<lambda>q q'. normalize q = Inr q') questions normalized \<Longrightarrow>
   process_loop questions processed missing =
     Inr (processed @ filter (\<lambda>q. py_strip (correct_answer q) \<noteq> []) normalized,
          missing @ filter (\<lambda>q. py_strip (correct_answer q) = []) normalized)"
proof (induction questions normalized arbitrary: processed missing rule: list_all2_induct)
  case Nil
  show ?case by simp
next
  case (Cons q q' questions normalized)
  then show ?case by simp
qed

lemma normalize_all:
  "\<forall>q \<in> set questions. qtype q = judgment_type \<longrightarrow> (\<exists>d. options q = JObj d) \<Longrightarrow>
   \<exists>normalized. list_all2 (\<lambda>q q'. normalize q = Inr q') questions normalized"
proof (induction questions)
  case Nil
  show ?case by simp
next
  case (Cons q questions)
  then obtain normalized where
    "list_all2 (\<lambda>q q'. normalize q = Inr q') questions normalized" by auto
  moreover from Cons.prems obtain q' where "normalize q = Inr q'"
    using normalize_total [of q] by auto
  ultimately have "list_all2 (\<lambda>q q'. normalize q = Inr q') (q # questions) (q' # normalized)"
    by simp
  then show ?case by blast
qed

text \<open>
  C5 (partition). For a batch in which the options of every judgment record are a
  dictionary, \<open>process_questions\<close> returns the two lists obtained from the list of the
  normalized records, one for one and in the order of the batch, by keeping in the first
  the records whose stripped answer is not empty and in the second the records whose
  stripped answer is empty. So every record is in exactly one list, none is dropped (the
  two lengths add up to the length of the batch) and each list is in the order of the
  batch. The witness is the batch with the answers \<open>A\<close>, the empty string and two blanks,
  the second record being a judgment record.
\<close>

theorem partition_total_exclusive_stable:
  assumes "\<forall>q \<in> set questions. qtype q = judgment_type \<longrightarrow> (\<exists>d. options q = JObj d)"
  shows "\<exists>normalized answered answer_missing.
           list_all2 (\<lambda>q q'. normalize q = Inr q') questions normalized \<and>
           process_questions questions = Inr (answered, answer_missing) \<and>
           answered = filter (\<lambda>q. py_strip (correct_answer q) \<noteq> []) normalized \<and>
           answer_missing = filter (\<lambda>q. py_strip (correct_answer q) = []) normalized \<and>
           length answered + length answer_missing = length questions"
proof -
  from normalize_all [OF assms] obtain normalized where
    n: "list_all2 (\<lambda>q q'. normalize q = Inr q') questions normalized" by blast
  let ?answered = "filter (\<lambda>q. py_strip (correct_answer q) \<noteq> []) normalized"
  let ?missing = "filter (\<lambda>q. py_strip (correct_answer q) = []) normalized"
  from process_loop_partition [OF n, of "[]" "[]"]
  have p: "process_questions questions = Inr (?answered, ?missing)"
    by (simp add: process_questions_def)
  have "length ?answered + length ?missing = length normalized"
    using sum_length_filter_compl [of "\<lambda>q. py_strip (correct_answer q) \<noteq> []" normalized]
    by simp
  with n have "length ?answered + length ?missing = length questions"
    by (simp add: list_all2_lengthD)
  with n p show ?thesis by blast
qed

theorem partition_total_exclusive_stable_witness:
  "single_choice_type \<noteq> judgment_type \<and>
   qtype (sample_record judgment_type (JObj []) []) = judgment_type \<and>
   options (sample_record judgment_type (JObj []) []) = JObj [] \<and>
   process_questions
     [sample_record single_choice_type (JObj []) (ascii ''A''),
      sample_record judgment_type (JObj []) [],
      sample_record single_choice_type (JObj []) (ascii ''  '')] =
   Inr ([sample_record single_choice_type (JObj []) (ascii ''A'')],
        [sample_record judgment_type
           (JObj [(ascii ''A'', JStr true_text), (ascii ''B'', JStr false_text)]) [],
         sample_record single_choice_type (JObj []) (ascii ''  '')])"
  using partition_total_exclusive_stable
    [of "[sample_record single_choice_type (JObj []) (ascii ''A''),
          sample_record judgment_type (JObj []) [],
          sample_record single_choice_type (JObj []) (ascii ''  '')]"]
  by (simp add: sample_record_def type_defs process_questions_def normalize_def
        convert_judgment_to_choice_def answer_defs ascii_def py_strip_def py_isspace_def)

text \<open>
  Without the condition on the options the batch can be lost as a whole. The judgment
  card whose attribute is \<open>null\<close> is extracted without error into a record whose options
  are \<open>None\<close>; in a batch, behind a record that has an answer, the assignment
  \<open>options["A"] = ...\<close> raises \<open>TypeError\<close> and \<open>process_questions\<close> returns neither list.
\<close>

theorem partition_counterexample:
  "parse_question_from_html sample_loads null_options_soup =
     Inr (Some \<lparr>qtype = judgment_type, question = [], options = JNull, source = [],
       correct_answer = [], knowledge_point = []\<rparr>) \<and>
   process_questions
     [sample_record single_choice_type (JObj []) (ascii ''A''),
      \<lparr>qtype = judgment_type, question = [], options = JNull, source = [],
       correct_answer = [], knowledge_point = []\<rparr>] = Inl TypeError"
proof -
  have "parse_question_from_html sample_loads null_options_soup =
     Inr (Some \<lparr>qtype = judgment_type, question = [], options = JNull, source = [],
       correct_answer = [], knowledge_point = []\<rparr>)"
    by (simp add: sample_defs eval_defs parse_question_from_html_def parse_options_def
          judgment_type_def)
  moreover have "process_questions
     [sample_record single_choice_type (JObj []) (ascii ''A''),
      \<lparr>qtype = judgment_type, question = [], options = JNull, source = [],
       correct_answer = [], knowledge_point = []\<rparr>] = Inl TypeError"
    by (simp add: sample_record_def type_defs process_questions_def normalize_def
          convert_judgment_to_choice_def ascii_def py_strip_def py_isspace_def)
  ultimately show ?thesis by simp
qed

end
